theory Spec2Isabelle
  imports Main "HOL-Library.Sublist" "HOL-Library.AList" "HOL-Library.Word"
begin

unbundle bit_operations_syntax

section \<open>Values of the program\<close>

text \<open>
  The server in \<^verbatim>\<open>src/testflinger/v1.py\<close> is a set of Flask handlers over two stores:
  a Redis server (job queues and output streams, both Redis lists) and a directory of
  files (result records and artifacts).

  A Python \<^verbatim>\<open>str\<close> is modelled as a \<^typ>\<open>string\<close> whose characters are code points below
  256; a \<^verbatim>\<open>bytes\<close> value is a \<^typ>\<open>string\<close> of bytes. A response body is given as the text the
  handler returns.

  The body of a request, as \<^verbatim>\<open>request.get_json()\<close> returns it, is a JSON value. A Python
  \<^verbatim>\<open>dict\<close> keeps its keys in insertion order, so an object is an association list. A float
  is kept as the 64 bits of its IEEE 754 encoding.
\<close>

datatype json =
    JNull
  | JBool bool
  | JInt int
  | JFloat "64 word"
  | JStr string
  | JArr "json list"
  | JObj "(string \<times> json) list"

text \<open>Python's truth value of a JSON value, as \<^verbatim>\<open>if not x\<close> tests it.\<close>

fun truthy :: "json \<Rightarrow> bool" where
  "truthy JNull = False"
| "truthy (JBool b) = b"
| "truthy (JInt n) = (n \<noteq> 0)"
| "truthy (JFloat w) = (push_bit 1 w \<noteq> 0)"
| "truthy (JStr s) = (s \<noteq> [])"
| "truthy (JArr xs) = (xs \<noteq> [])"
| "truthy (JObj kvs) = (kvs \<noteq> [])"

text \<open>The exceptions that the modelled code can raise.\<close>

datatype pyexc =
    TypeError
  | AttributeError
  | ValueError
  | BadRequestKeyError
  | DataError
  | UnicodeDecodeError
  | FileNotFoundError

section \<open>String operations of the Python library\<close>

text \<open>
  \<^verbatim>\<open>s.replace(old, new)\<close> for a non-empty \<^verbatim>\<open>old\<close>: the occurrences are found from the
  left and do not overlap; the result is not scanned again.
\<close>

fun str_replace :: "string \<Rightarrow> string \<Rightarrow> string \<Rightarrow> string" where
  "str_replace old new [] = []"
| "str_replace old new (c # cs) =
     (if old \<noteq> [] \<and> prefix old (c # cs)
      then new @ str_replace old new (drop (length old) (c # cs))
      else c # str_replace old new cs)"

text \<open>\<^verbatim>\<open>s.strip(chars)\<close>: the leading and the trailing characters that are in \<^verbatim>\<open>chars\<close> go.\<close>

definition str_strip :: "string \<Rightarrow> string \<Rightarrow> string" where
  "str_strip chars s =
     rev (dropWhile (\<lambda>c. c \<in> set chars) (rev (dropWhile (\<lambda>c. c \<in> set chars) s)))"

text \<open>\<^verbatim>\<open>sep.join(xs)\<close>.\<close>

fun str_join :: "string \<Rightarrow> string list \<Rightarrow> string" where
  "str_join sep [] = []"
| "str_join sep [x] = x"
| "str_join sep (x # y # ys) = x @ sep @ str_join sep (y # ys)"

text \<open>
  \<^verbatim>\<open>int(s, 16)\<close> of CPython (3.6 and later) on a \<^verbatim>\<open>str\<close>: white space around the number, an optional
  sign, an optional \<^verbatim>\<open>0x\<close> prefix, then hexadecimal digits, where single underscores may
  separate digits. White space is the ASCII white space of C and, beyond ASCII, the
  code points U+0085 and U+00A0. Anything else raises ValueError (\<^const>\<open>None\<close>).
\<close>

definition py_isspace :: "char \<Rightarrow> bool" where
  "py_isspace c = (of_char c \<in> {9, 10, 11, 12, 13, 32, 133, 160 :: nat})"

definition hex_digit :: "char \<Rightarrow> nat option" where
  "hex_digit c =
     (let n = (of_char c :: nat) in
      if 48 \<le> n \<and> n \<le> 57 then Some (n - 48)
      else if 97 \<le> n \<and> n \<le> 102 then Some (n - 87)
      else if 65 \<le> n \<and> n \<le> 70 then Some (n - 55)
      else None)"

definition is_hex :: "char \<Rightarrow> bool" where
  "is_hex c = (hex_digit c \<noteq> None)"

definition digit_or_us :: "char \<Rightarrow> bool" where
  "digit_or_us c = (is_hex c \<or> c = CHR ''_'')"

fun double_us :: "string \<Rightarrow> bool" where
  "double_us (a # b # cs) = ((a = CHR ''_'' \<and> b = CHR ''_'') \<or> double_us (b # cs))"
| "double_us _ = False"

definition hex_value :: "string \<Rightarrow> nat" where
  "hex_value ds = foldl (\<lambda>a c. 16 * a + the (hex_digit c)) 0 ds"

fun skip_0x :: "string \<Rightarrow> string" where
  "skip_0x (a # b # cs) =
     (if a = CHR ''0'' \<and> (b = CHR ''x'' \<or> b = CHR ''X'')
      then (case cs of [] \<Rightarrow> [] | d # ds \<Rightarrow> if d = CHR ''_'' then ds else d # ds)
      else a # b # cs)"
| "skip_0x s = s"

definition py_int16 :: "string \<Rightarrow> int option" where
  "py_int16 s =
     (let s1 = dropWhile py_isspace s;
          neg = (s1 \<noteq> [] \<and> hd s1 = CHR ''-'');
          s2 = (if s1 \<noteq> [] \<and> (hd s1 = CHR ''+'' \<or> hd s1 = CHR ''-'') then tl s1 else s1);
          s3 = skip_0x s2;
          body = takeWhile digit_or_us s3;
          rest = dropWhile digit_or_us s3
      in if body = [] \<or> hd body = CHR ''_'' \<or> last body = CHR ''_'' \<or> double_us body
            \<or> dropWhile py_isspace rest \<noteq> []
         then None
         else Some ((if neg then - 1 else 1) *
                    int (hex_value (filter (\<lambda>c. c \<noteq> CHR ''_'') body))))"

section \<open>Validation of job identifiers\<close>

text \<open>
  \<^verbatim>\<open>uuid.UUID(job_id)\<close> of the Python library, called with one positional argument
  (\<^verbatim>\<open>hex\<close>). With \<^verbatim>\<open>None\<close> no argument counts as given: TypeError. A value that is no
  string has no \<^verbatim>\<open>replace\<close>: AttributeError. A string is stripped of \<^verbatim>\<open>urn:\<close>,
  \<^verbatim>\<open>uuid:\<close>, of braces at both ends and of hyphens; 32 characters must remain, and they
  must read as a hexadecimal integer of 128 bits. The result is that integer.
\<close>

definition uuid_hex :: "string \<Rightarrow> string" where
  "uuid_hex s =
     str_replace ''-'' [] (str_strip ''{}'' (str_replace ''uuid:'' [] (str_replace ''urn:'' [] s)))"

fun uuid_UUID :: "json \<Rightarrow> pyexc + int" where
  "uuid_UUID JNull = Inl TypeError"
| "uuid_UUID (JStr s) =
     (let hex = uuid_hex s in
      if length hex \<noteq> 32 then Inl ValueError
      else (case py_int16 hex of
              None \<Rightarrow> Inl ValueError
            | Some n \<Rightarrow> if 0 \<le> n \<and> n < 2 ^ 128 then Inr n else Inl ValueError))"
| "uuid_UUID _ = Inl AttributeError"

text \<open>
  \<^verbatim>\<open>check_valid_uuid\<close> (v1.py, lines 185 to 198): the constructor runs under a bare
  \<^verbatim>\<open>except\<close>. The result is a sum, as for every function of the model, so that an
  exception that left the function would be a value \<^const>\<open>Inl\<close>.
\<close>

definition check_valid_uuid :: "json \<Rightarrow> pyexc + bool" where
  "check_valid_uuid job_id =
     (case uuid_UUID job_id of Inl e \<Rightarrow> Inr False | Inr u \<Rightarrow> Inr True)"

text \<open>
  The canonical textual form of a UUID, in the words of the specification: five groups of
  8, 4, 4, 4 and 12 hexadecimal digits, separated by hyphens.
\<close>

fun uuid_groups :: "nat list \<Rightarrow> string \<Rightarrow> bool" where
  "uuid_groups [] s = (s = [])"
| "uuid_groups [n] s = (length s = n \<and> list_all is_hex s)"
| "uuid_groups (n # m # ns) s =
     (n \<le> length s \<and> list_all is_hex (take n s) \<and>
      (case drop n s of [] \<Rightarrow> False | c # r \<Rightarrow> c = CHR ''-'' \<and> uuid_groups (m # ns) r))"

definition canonical_uuid :: "string \<Rightarrow> bool" where
  "canonical_uuid s = uuid_groups [8, 4, 4, 4, 12] s"

section \<open>The stores\<close>

text \<open>
  The configuration of the application and the two library functions whose results are
  data of the model: \<^verbatim>\<open>json.dumps\<close>, and the encoder of the Redis client for a key
  that is not a string (its result depends on the version of the client; \<^const>\<open>None\<close>
  is DataError).
\<close>

record env =
  DATA_PATH :: string
  json_dumps :: "json \<Rightarrow> string"
  encode_other :: "json \<Rightarrow> string option"

text \<open>
  Every call to a store is recorded, in order, in the trace of the state. The Redis
  server holds lists only; a key with no list is the empty list, as Redis removes a list
  that becomes empty. Job queues and output streams share the key space of the server.
  \<^verbatim>\<open>ttl\<close> is the time to live that \<^verbatim>\<open>EXPIRE\<close> sets on a key; time does not pass in the
  model, and no other client changes the stores between two calls. A file gives back
  on reading what was written to it, and the stores do not fail.
\<close>

datatype event =
    EvLPush string string
  | EvRPush string string
  | EvExpire string nat
  | EvBRPop "string list" nat
  | EvLRange string int int
  | EvDelete string
  | EvExists string
  | EvWrite string string
  | EvRead string

record state =
  files :: "string \<rightharpoonup> string"
  redis :: "string \<Rightarrow> string list"
  ttl :: "string \<rightharpoonup> nat"
  trace :: "event list"

definition lpush :: "string \<Rightarrow> string \<Rightarrow> state \<Rightarrow> state" where
  "lpush k v st =
     st\<lparr>redis := (redis st)(k := v # redis st k), trace := trace st @ [EvLPush k v]\<rparr>"

definition rpush :: "string \<Rightarrow> string \<Rightarrow> state \<Rightarrow> state" where
  "rpush k v st =
     st\<lparr>redis := (redis st)(k := redis st k @ [v]), trace := trace st @ [EvRPush k v]\<rparr>"

definition expire :: "string \<Rightarrow> nat \<Rightarrow> state \<Rightarrow> state" where
  "expire k n st =
     st\<lparr>ttl := (if redis st k \<noteq> [] then (ttl st)(k \<mapsto> n) else ttl st),
        trace := trace st @ [EvExpire k n]\<rparr>"

text \<open>\<^verbatim>\<open>LRANGE key 0 -1\<close>: the whole list, from the left.\<close>

definition lrange_all :: "string \<Rightarrow> state \<Rightarrow> string list \<times> state" where
  "lrange_all k st = (redis st k, st\<lparr>trace := trace st @ [EvLRange k 0 (- 1)]\<rparr>)"

definition delete :: "string \<Rightarrow> state \<Rightarrow> state" where
  "delete k st =
     st\<lparr>redis := (redis st)(k := []), ttl := (ttl st)(k := None),
        trace := trace st @ [EvDelete k]\<rparr>"

text \<open>
  \<^verbatim>\<open>BRPOP\<close>: the keys are tried in the order given; the last element of the first list
  that is not empty is removed and returned with its key. With every list empty the call
  waits for the timeout and returns \<^verbatim>\<open>None\<close>.
\<close>

fun first_nonempty :: "(string \<Rightarrow> string list) \<Rightarrow> string list \<Rightarrow> string option" where
  "first_nonempty r [] = None"
| "first_nonempty r (k # ks) = (if r k \<noteq> [] then Some k else first_nonempty r ks)"

definition brpop :: "string list \<Rightarrow> nat \<Rightarrow> state \<Rightarrow> (string \<times> string) option \<times> state" where
  "brpop ks timeout st =
     (case first_nonempty (redis st) ks of
        None \<Rightarrow> (None, st\<lparr>trace := trace st @ [EvBRPop ks timeout]\<rparr>)
      | Some k \<Rightarrow>
          (Some (k, last (redis st k)),
           st\<lparr>redis := (redis st)(k := butlast (redis st k)),
              ttl := (if butlast (redis st k) = [] then (ttl st)(k := None) else ttl st),
              trace := trace st @ [EvBRPop ks timeout]\<rparr>))"

definition path_exists :: "string \<Rightarrow> state \<Rightarrow> bool \<times> state" where
  "path_exists p st = (files st p \<noteq> None, st\<lparr>trace := trace st @ [EvExists p]\<rparr>)"

definition write_file :: "string \<Rightarrow> string \<Rightarrow> state \<Rightarrow> state" where
  "write_file p v st =
     st\<lparr>files := (files st)(p \<mapsto> v), trace := trace st @ [EvWrite p v]\<rparr>"

definition read_file :: "string \<Rightarrow> state \<Rightarrow> (pyexc + string) \<times> state" where
  "read_file p st =
     ((case files st p of None \<Rightarrow> Inl FileNotFoundError | Some v \<Rightarrow> Inr v),
      st\<lparr>trace := trace st @ [EvRead p]\<rparr>)"

text \<open>\<^verbatim>\<open>os.path.join(a, b)\<close> of \<^verbatim>\<open>posixpath\<close>.\<close>

definition path_join :: "string \<Rightarrow> string \<Rightarrow> string" where
  "path_join a b =
     (if b \<noteq> [] \<and> hd b = CHR ''/'' then b
      else if a = [] \<or> last a = CHR ''/'' then a @ b
      else a @ ''/'' @ b)"

text \<open>
  \<^verbatim>\<open>x.decode()\<close>: the bytes must be well-formed UTF-8. The text is kept as these bytes,
  which are also the bytes of the response.
\<close>

definition cont :: "nat \<Rightarrow> bool" where
  "cont c = (128 \<le> c \<and> c \<le> 191)"

definition second3 :: "nat \<Rightarrow> nat \<Rightarrow> bool" where
  "second3 b c =
     (if b = 224 then 160 \<le> c \<and> c \<le> 191
      else if b = 237 then 128 \<le> c \<and> c \<le> 159
      else cont c)"

definition second4 :: "nat \<Rightarrow> nat \<Rightarrow> bool" where
  "second4 b c =
     (if b = 240 then 144 \<le> c \<and> c \<le> 191
      else if b = 244 then 128 \<le> c \<and> c \<le> 143
      else cont c)"

fun utf8_valid :: "nat list \<Rightarrow> bool" where
  "utf8_valid [] = True"
| "utf8_valid (b # bs) =
     (if b < 128 then utf8_valid bs
      else if 194 \<le> b \<and> b \<le> 223 then
        (case bs of c1 # r \<Rightarrow> cont c1 \<and> utf8_valid r | _ \<Rightarrow> False)
      else if 224 \<le> b \<and> b \<le> 239 then
        (case bs of c1 # c2 # r \<Rightarrow> second3 b c1 \<and> cont c2 \<and> utf8_valid r | _ \<Rightarrow> False)
      else if 240 \<le> b \<and> b \<le> 244 then
        (case bs of c1 # c2 # c3 # r \<Rightarrow>
             second4 b c1 \<and> cont c2 \<and> cont c3 \<and> utf8_valid r
         | _ \<Rightarrow> False)
      else False)"

definition bytes_decode :: "string \<Rightarrow> pyexc + string" where
  "bytes_decode x = (if utf8_valid (map of_char x) then Inr x else Inl UnicodeDecodeError)"

fun decode_all :: "string list \<Rightarrow> pyexc + string list" where
  "decode_all [] = Inr []"
| "decode_all (x # xs) =
     (case bytes_decode x of
        Inl e \<Rightarrow> Inl e
      | Inr y \<Rightarrow> (case decode_all xs of Inl e \<Rightarrow> Inl e | Inr ys \<Rightarrow> Inr (y # ys)))"

section \<open>The handlers\<close>

text \<open>
  What a handler returns to Flask: a body with its status (200 where the source gives
  none), the result of \<^verbatim>\<open>jsonify\<close> (status 200), or the content of the file that
  \<^verbatim>\<open>send_file\<close> sends (status 200). An exception that leaves a handler is \<^const>\<open>Inl\<close>.
  The specification calls the answers 400 for a missing queue \<^verbatim>\<open>InvalidRequest\<close>, those
  for an id that is not valid \<^verbatim>\<open>InvalidJobId\<close>, and an answer 204 "not ready", "empty" or
  "no job available". \<^verbatim>\<open>home\<close>, which calls no store and takes no id, is left out.
\<close>

datatype response =
    Resp string nat
  | Jsonify "(string \<times> json) list"
  | SendFile string

type_synonym result = "state \<times> (pyexc + response)"

text \<open>\<^verbatim>\<open>d.get(k)\<close> on a dict: \<^verbatim>\<open>None\<close> for a key that is missing.\<close>

definition dict_get :: "(string \<times> json) list \<Rightarrow> string \<Rightarrow> json" where
  "dict_get kvs k = (case map_of kvs k of None \<Rightarrow> JNull | Some v \<Rightarrow> v)"

text \<open>
  The key under which the Redis client sends a value: a string as it is, any other
  value as the encoder of the client decides.
\<close>

definition encode_key :: "env \<Rightarrow> json \<Rightarrow> pyexc + string" where
  "encode_key env v =
     (case v of
        JStr s \<Rightarrow> Inr s
      | _ \<Rightarrow> (case encode_other env v of None \<Rightarrow> Inl DataError | Some k \<Rightarrow> Inr k))"

text \<open>\<^verbatim>\<open>submit_job\<close> (lines 201 to 212).\<close>

definition submit_job :: "env \<Rightarrow> json \<Rightarrow> string \<Rightarrow> state \<Rightarrow> state \<times> (pyexc + unit)" where
  "submit_job env job_queue data st =
     (case encode_key env job_queue of
        Inl e \<Rightarrow> (st, Inl e)
      | Inr k \<Rightarrow> (lpush k data st, Inr ()))"

text \<open>
  \<^verbatim>\<open>get_job\<close> (lines 215 to 224): unpacking the \<^verbatim>\<open>None\<close> of a timeout raises
  TypeError, which is caught.
\<close>

definition get_job :: "string list \<Rightarrow> state \<Rightarrow> string option \<times> state" where
  "get_job queue_list st =
     (case brpop queue_list 1 st of
        (None, st') \<Rightarrow> (None, st')
      | (Some (q, job), st') \<Rightarrow> (Some job, st'))"

text \<open>
  \<^verbatim>\<open>job_post\<close>, lines 54 to 63, which both branches of the test on \<^verbatim>\<open>job_id\<close> reach:
  the push, then the test for the result file, then its write. \<^verbatim>\<open>os.path.join\<close> raises
  TypeError for a \<^verbatim>\<open>job_id\<close> that is no string.
\<close>

definition job_post_store :: "env \<Rightarrow> json \<Rightarrow> json \<Rightarrow> json \<Rightarrow> state \<Rightarrow> result" where
  "job_post_store env job_queue job_id data st =
     (case submit_job env job_queue (json_dumps env data) st of
        (st1, Inl e) \<Rightarrow> (st1, Inl e)
      | (st1, Inr u) \<Rightarrow>
          (case job_id of
             JStr jid \<Rightarrow>
               (let result_file = path_join (DATA_PATH env) jid;
                    (found, st2) = path_exists result_file st1;
                    job_state = (if found then ''resubmitted'' else ''waiting'');
                    st3 = write_file result_file
                            (json_dumps env (JObj [(''job_state'', JStr job_state)])) st2
                in (st3, Inr (Jsonify [(''job_id'', JStr jid)])))
           | _ \<Rightarrow> (st1, Inl TypeError)))"

text \<open>
  \<^verbatim>\<open>job_post\<close> (lines 36 to 63). \<^verbatim>\<open>uuid4\<close> is the string that \<^verbatim>\<open>str(uuid.uuid4())\<close>
  returns when it is called. For a body that is no dict, \<^verbatim>\<open>data.get\<close> raises
  AttributeError and \<^verbatim>\<open>job_queue\<close> is \<^verbatim>\<open>None\<close>.
\<close>

definition job_post :: "env \<Rightarrow> string \<Rightarrow> json \<Rightarrow> state \<Rightarrow> result" where
  "job_post env uuid4 data st =
     (case data of
        JObj kvs \<Rightarrow>
          (let job_queue = dict_get kvs ''job_queue'' in
           if \<not> truthy job_queue
           then (st, Inr (Resp (''Invalid data or no job_queue specified'' @ [CHR 0x0A]) 400))
           else
             (let job_id = dict_get kvs ''job_id'' in
              if \<not> truthy job_id
              then job_post_store env job_queue (JStr uuid4)
                     (JObj (AList.update ''job_id'' (JStr uuid4) kvs)) st
              else
                (case check_valid_uuid job_id of
                   Inl e \<Rightarrow> (st, Inl e)
                 | Inr ok \<Rightarrow>
                     if \<not> ok
                     then (st, Inr (Resp (''Invalid job_id specified'' @ [CHR 0x0A]) 400))
                     else job_post_store env job_queue job_id data st)))
      | _ \<Rightarrow> (st, Inr (Resp (''Invalid data or no job_queue specified'' @ [CHR 0x0A]) 400)))"

text \<open>\<^verbatim>\<open>job_get\<close> (lines 66 to 75); \<^verbatim>\<open>if job\<close> is false for \<^verbatim>\<open>None\<close> and for empty bytes.\<close>

definition job_get :: "string list \<Rightarrow> state \<Rightarrow> result" where
  "job_get queue_list st =
     (if queue_list = []
      then (st, Inr (Resp ''No queue(s) specified in request'' 400))
      else
        (case get_job queue_list st of
           (Some job, st') \<Rightarrow> if job \<noteq> [] then (st', Inr (Resp job 200))
                              else (st', Inr (Resp [] 204))
         | (None, st') \<Rightarrow> (st', Inr (Resp [] 204))))"

text \<open>\<^verbatim>\<open>result_post\<close> (lines 78 to 90).\<close>

definition result_post :: "env \<Rightarrow> string \<Rightarrow> json \<Rightarrow> state \<Rightarrow> result" where
  "result_post env job_id data st =
     (case check_valid_uuid (JStr job_id) of
        Inl e \<Rightarrow> (st, Inl e)
      | Inr ok \<Rightarrow>
          if \<not> ok then (st, Inr (Resp (''Invalid job id'' @ [CHR 0x0A]) 400))
          else
            (let result_file = path_join (DATA_PATH env) job_id
             in (write_file result_file (json_dumps env data) st, Inr (Resp ''OK'' 200))))"

text \<open>\<^verbatim>\<open>result_get\<close> (lines 93 to 106).\<close>

definition result_get :: "env \<Rightarrow> string \<Rightarrow> state \<Rightarrow> result" where
  "result_get env job_id st =
     (case check_valid_uuid (JStr job_id) of
        Inl e \<Rightarrow> (st, Inl e)
      | Inr ok \<Rightarrow>
          if \<not> ok then (st, Inr (Resp (''Invalid job id'' @ [CHR 0x0A]) 400))
          else
            (let result_file = path_join (DATA_PATH env) job_id;
                 (found, st1) = path_exists result_file st
             in if \<not> found then (st1, Inr (Resp [] 204))
                else
                  (case read_file result_file st1 of
                     (Inl e, st2) \<Rightarrow> (st2, Inl e)
                   | (Inr data, st2) \<Rightarrow> (st2, Inr (Resp data 200)))))"

text \<open>
  \<^verbatim>\<open>artifacts_post\<close> (lines 109 to 120). \<^verbatim>\<open>file\<close> is the part of the request named
  \<^verbatim>\<open>file\<close>, if there is one; \<^verbatim>\<open>request.files['file']\<close> raises without it.
\<close>

definition artifacts_post :: "env \<Rightarrow> string \<Rightarrow> string option \<Rightarrow> state \<Rightarrow> result" where
  "artifacts_post env job_id file st =
     (case check_valid_uuid (JStr job_id) of
        Inl e \<Rightarrow> (st, Inl e)
      | Inr ok \<Rightarrow>
          if \<not> ok then (st, Inr (Resp (''Invalid job id'' @ [CHR 0x0A]) 400))
          else
            (case file of
               None \<Rightarrow> (st, Inl BadRequestKeyError)
             | Some content \<Rightarrow>
                 (let filename = job_id @ ''.artifact''
                  in (write_file (path_join (DATA_PATH env) filename) content st,
                      Inr (Resp ''OK'' 200)))))"

text \<open>\<^verbatim>\<open>artifacts_get\<close> (lines 123 to 137).\<close>

definition artifacts_get :: "env \<Rightarrow> string \<Rightarrow> state \<Rightarrow> result" where
  "artifacts_get env job_id st =
     (case check_valid_uuid (JStr job_id) of
        Inl e \<Rightarrow> (st, Inl e)
      | Inr ok \<Rightarrow>
          if \<not> ok then (st, Inr (Resp (''Invalid job id'' @ [CHR 0x0A]) 400))
          else
            (let artifact_file = path_join (DATA_PATH env) (job_id @ ''.artifact'');
                 (found, st1) = path_exists artifact_file st
             in if \<not> found then (st1, Inr (Resp [] 204))
                else
                  (case read_file artifact_file st1 of
                     (Inl e, st2) \<Rightarrow> (st2, Inl e)
                   | (Inr content, st2) \<Rightarrow> (st2, Inr (SendFile content)))))"

text \<open>
  \<^verbatim>\<open>output_get\<close> (lines 140 to 161). The pipeline runs \<^verbatim>\<open>LRANGE\<close> and \<^verbatim>\<open>DEL\<close> as one
  transaction; the chunks are decoded after it has run.
\<close>

definition output_get :: "string \<Rightarrow> state \<Rightarrow> result" where
  "output_get job_id st =
     (case check_valid_uuid (JStr job_id) of
        Inl e \<Rightarrow> (st, Inl e)
      | Inr ok \<Rightarrow>
          if \<not> ok then (st, Inr (Resp (''Invalid job id'' @ [CHR 0x0A]) 400))
          else
            (let output_key = ''stream_'' @ job_id;
                 (output, st1) = lrange_all output_key st;
                 st2 = delete output_key st1
             in if output \<noteq> []
                then (case decode_all output of
                        Inl e \<Rightarrow> (st2, Inl e)
                      | Inr xs \<Rightarrow> (st2, Inr (Resp (str_join [CHR 0x0A] xs) 200)))
                else (st2, Inr (Resp [] 204))))"

text \<open>\<^verbatim>\<open>output_post\<close> (lines 164 to 182); \<^verbatim>\<open>data\<close> is the body of the request.\<close>

definition output_post :: "string \<Rightarrow> string \<Rightarrow> state \<Rightarrow> result" where
  "output_post job_id data st =
     (case check_valid_uuid (JStr job_id) of
        Inl e \<Rightarrow> (st, Inl e)
      | Inr ok \<Rightarrow>
          if \<not> ok then (st, Inr (Resp (''Invalid job id'' @ [CHR 0x0A]) 400))
          else
            (let output_key = ''stream_'' @ job_id;
                 st1 = rpush output_key data st;
                 st2 = expire output_key 14400 st1
             in (st2, Inr (Resp ''OK'' 200))))"

text \<open>The requests that the server handles, and a run of the server on a list of them.\<close>

datatype request =
    JobPost string json
  | JobGet "string list"
  | ResultPost string json
  | ResultGet string
  | ArtifactsPost string "string option"
  | ArtifactsGet string
  | OutputGet string
  | OutputPost string string

fun handle :: "env \<Rightarrow> request \<Rightarrow> state \<Rightarrow> result" where
  "handle env (JobPost uuid4 data) st = job_post env uuid4 data st"
| "handle env (JobGet queue_list) st = job_get queue_list st"
| "handle env (ResultPost job_id data) st = result_post env job_id data st"
| "handle env (ResultGet job_id) st = result_get env job_id st"
| "handle env (ArtifactsPost job_id file) st = artifacts_post env job_id file st"
| "handle env (ArtifactsGet job_id) st = artifacts_get env job_id st"
| "handle env (OutputGet job_id) st = output_get job_id st"
| "handle env (OutputPost job_id data) st = output_post job_id data st"

fun run :: "env \<Rightarrow> request list \<Rightarrow> state \<Rightarrow> state" where
  "run env [] st = st"
| "run env (r # rs) st = run env rs (fst (handle env r st))"

section \<open>Definitions used in the statements\<close>


text \<open>
  A configuration and a state for the examples. The serialiser of the examples writes
  objects of strings the way \<^verbatim>\<open>json.dumps\<close> writes them when no character needs an
  escape; the stores of \<^verbatim>\<open>empty_state\<close> are empty.
\<close>

definition dq :: string where
  "dq = [CHR 0x22]"

fun example_dumps :: "json \<Rightarrow> string" where
  "example_dumps (JStr s) = dq @ s @ dq"
| "example_dumps (JObj kvs) =
     ''{'' @ str_join '', ''
       (map (\<lambda>(k, v). dq @ k @ dq @ '': '' @ (case v of JStr s \<Rightarrow> dq @ s @ dq | _ \<Rightarrow> ''null'')) kvs)
     @ ''}''"
| "example_dumps _ = ''null''"

definition example_env :: env where
  "example_env = \<lparr>DATA_PATH = ''/data'', json_dumps = example_dumps, encode_other = (\<lambda>v. None)\<rparr>"

definition empty_state :: state where
  "empty_state = \<lparr>files = Map.empty, redis = (\<lambda>k. []), ttl = Map.empty, trace = []\<rparr>"

definition example_id :: string where
  "example_id = ''12345678-1234-5678-1234-567812345678''"

definition example_job :: "(string \<times> json) list" where
  "example_job = [(''job_queue'', JStr ''q''), (''job_id'', JStr example_id)]"


section \<open>Lemmas on the library functions\<close>

lemma is_hex_not_special:
  "is_hex c \<Longrightarrow> c \<notin> set ''-u{}+_xX./'' \<and> \<not> py_isspace c"
  by (auto simp: is_hex_def hex_digit_def py_isspace_def Let_def split: if_splits)

lemma str_replace_noop:
  "old \<noteq> [] \<Longrightarrow> hd old \<notin> set s \<Longrightarrow> str_replace old new s = s"
proof (induction s)
  case Nil
  then show ?case by simp
next
  case (Cons c cs)
  then have "\<not> prefix old (c # cs)"
    by (cases old) auto
  with Cons show ?case by simp
qed

lemma str_replace_char:
  "str_replace [c] [] s = filter (\<lambda>x. x \<noteq> c) s"
  by (induction s) auto

lemma str_strip_noop:
  "s \<noteq> [] \<Longrightarrow> hd s \<notin> set chars \<Longrightarrow> last s \<notin> set chars \<Longrightarrow> str_strip chars s = s"
proof -
  assume a: "s \<noteq> []" "hd s \<notin> set chars" "last s \<notin> set chars"
  have 1: "dropWhile (\<lambda>c. c \<in> set chars) s = s"
    using a by (cases s) auto
  have 2: "dropWhile (\<lambda>c. c \<in> set chars) (rev s) = rev s"
    using a by (cases "rev s") (auto simp: hd_rev [symmetric])
  show ?thesis by (simp add: str_strip_def 1 2)
qed

lemma hex_value_bound_aux:
  "list_all is_hex ds \<Longrightarrow>
   foldl (\<lambda>a c. 16 * a + the (hex_digit c)) acc ds < (acc + 1) * 16 ^ length ds"
proof (induction ds arbitrary: acc)
  case Nil
  then show ?case by simp
next
  case (Cons d ds)
  then have d: "the (hex_digit d) < 16"
    by (auto simp: is_hex_def hex_digit_def Let_def split: if_splits)
  have "foldl (\<lambda>a c. 16 * a + the (hex_digit c)) (16 * acc + the (hex_digit d)) ds
        < (16 * acc + the (hex_digit d) + 1) * 16 ^ length ds"
    using Cons by simp
  also have "\<dots> \<le> (16 * acc + 16) * 16 ^ length ds"
    using d by (intro mult_le_mono1) simp
  finally show ?case by (simp add: algebra_simps)
qed

lemma hex_value_bound: "list_all is_hex ds \<Longrightarrow> hex_value ds < 16 ^ length ds"
  using hex_value_bound_aux [of ds 0] by (simp add: hex_value_def)

lemma skip_0x_hex: "list_all is_hex hs \<Longrightarrow> skip_0x hs = hs"
  by (cases hs rule: skip_0x.cases) (auto dest: is_hex_not_special)

lemma double_us_hex: "list_all is_hex hs \<Longrightarrow> \<not> double_us hs"
  by (induction hs rule: double_us.induct) (auto dest: is_hex_not_special)

lemma py_int16_hex:
  assumes "list_all is_hex hs" "hs \<noteq> []"
  shows "py_int16 hs = Some (int (hex_value hs))"
proof -
  obtain h t where hs: "hs = h # t" using assms(2) by (cases hs) auto
  have h: "is_hex h" using assms(1) hs by simp
  have sp: "dropWhile py_isspace hs = hs"
    using h hs is_hex_not_special by simp
  have sg: "hd hs \<noteq> CHR ''+''" "hd hs \<noteq> CHR ''-''"
    using h hs is_hex_not_special [of h] by auto
  have tw: "takeWhile digit_or_us hs = hs" "dropWhile digit_or_us hs = []"
    using assms(1) by (auto simp: digit_or_us_def list_all_iff)
  have fl: "filter (\<lambda>c. c \<noteq> CHR ''_'') hs = hs"
    using assms(1) is_hex_not_special by (auto simp: list_all_iff filter_id_conv)
  have us: "hd hs \<noteq> CHR ''_''" "last hs \<noteq> CHR ''_''"
    using assms is_hex_not_special [of "hd hs"] is_hex_not_special [of "last hs"]
    by (auto simp: list_all_iff)
  have s2: "(if hs \<noteq> [] \<and> (hd hs = CHR ''+'' \<or> hd hs = CHR ''-'') then tl hs else hs) = hs"
    using sg by simp
  show ?thesis
    unfolding py_int16_def Let_def sp s2 skip_0x_hex [OF assms(1)] tw fl
    using us sg assms double_us_hex [OF assms(1)] by simp
qed

lemma uuid_UUID_hex:
  assumes "uuid_hex s = hs" "length hs = 32" "list_all is_hex hs"
  shows "uuid_UUID (JStr s) = Inr (int (hex_value hs))"
proof -
  have ne: "hs \<noteq> []" using assms(2) by auto
  have "hex_value hs < 16 ^ 32" using hex_value_bound [OF assms(3)] assms(2) by simp
  then have "int (hex_value hs) < 2 ^ 128" by simp
  then show ?thesis
    using assms py_int16_hex [OF assms(3) ne] by (simp add: Let_def)
qed

lemma uuid_groups_facts:
  "uuid_groups ns s \<Longrightarrow> ns \<noteq> [] \<Longrightarrow> \<forall>n\<in>set ns. 0 < n \<Longrightarrow>
   s \<noteq> [] \<and> is_hex (hd s) \<and> is_hex (last s) \<and> (\<forall>c\<in>set s. is_hex c \<or> c = CHR ''-'') \<and>
   list_all is_hex (filter (\<lambda>c. c \<noteq> CHR ''-'') s) \<and>
   length (filter (\<lambda>c. c \<noteq> CHR ''-'') s) = sum_list ns"
proof (induction ns s rule: uuid_groups.induct)
  case (1 s)
  then show ?case by simp
next
  case (2 n s)
  then have a: "s \<noteq> []" "list_all is_hex s" "length s = n" by auto
  then have "is_hex (hd s)" "is_hex (last s)"
    by (auto simp: list_all_iff)
  moreover have "filter (\<lambda>c. c \<noteq> CHR ''-'') s = s"
    using a(2) is_hex_not_special by (auto simp: list_all_iff filter_id_conv)
  ultimately show ?case using a by (auto simp: list_all_iff)
next
  case (3 n m ns s)
  from "3.prems"(1) obtain r where
    d: "drop n s = CHR ''-'' # r" and n: "n \<le> length s" and
    h: "list_all is_hex (take n s)" and g: "uuid_groups (m # ns) r"
    by (auto split: list.splits)
  define a where "a = take n s"
  have s: "s = a @ CHR ''-'' # r"
    using d append_take_drop_id [of n s] by (simp add: a_def)
  have la: "length a = n" using n by (simp add: a_def)
  have pos: "0 < n" using "3.prems"(3) by simp
  then have ane: "a \<noteq> []" using la by auto
  have ha: "list_all is_hex a" using h by (simp add: a_def)
  have fa: "filter (\<lambda>c. c \<noteq> CHR ''-'') a = a"
    using ha is_hex_not_special by (auto simp: list_all_iff filter_id_conv)
  have ih: "r \<noteq> [] \<and> is_hex (hd r) \<and> is_hex (last r) \<and> (\<forall>c\<in>set r. is_hex c \<or> c = CHR ''-'') \<and>
      list_all is_hex (filter (\<lambda>c. c \<noteq> CHR ''-'') r) \<and>
      length (filter (\<lambda>c. c \<noteq> CHR ''-'') r) = sum_list (m # ns)"
    using "3.IH" [OF d g] "3.prems"(3) by simp
  have "is_hex (hd s)" using ane ha s by (cases a) auto
  moreover have "is_hex (last s)" using ih s by simp
  moreover have "\<forall>c\<in>set s. is_hex c \<or> c = CHR ''-''"
    using ih ha s by (auto simp: list_all_iff)
  moreover have "list_all is_hex (filter (\<lambda>c. c \<noteq> CHR ''-'') s)"
    using ih ha s fa by simp
  moreover have "length (filter (\<lambda>c. c \<noteq> CHR ''-'') s) = sum_list (n # m # ns)"
    using ih s fa la by simp
  ultimately show ?case using s by simp
qed

lemma canonical_uuid_hex:
  assumes "canonical_uuid s"
  shows "uuid_hex s = filter (\<lambda>c. c \<noteq> CHR ''-'') s \<and> length (uuid_hex s) = 32 \<and>
         list_all is_hex (uuid_hex s)"
proof -
  have f: "s \<noteq> []" "is_hex (hd s)" "is_hex (last s)" "\<forall>c\<in>set s. is_hex c \<or> c = CHR ''-''"
    "list_all is_hex (filter (\<lambda>c. c \<noteq> CHR ''-'') s)"
    "length (filter (\<lambda>c. c \<noteq> CHR ''-'') s) = 32"
    using uuid_groups_facts [of "[8, 4, 4, 4, 12]" s] assms
    by (simp_all add: canonical_uuid_def)
  have u: "CHR ''u'' \<notin> set s"
    using f(4) is_hex_not_special [of "CHR ''u''"] by auto
  have r1: "str_replace ''urn:'' [] s = s" using u by (simp add: str_replace_noop)
  have r2: "str_replace ''uuid:'' [] s = s" using u by (simp add: str_replace_noop)
  have r3: "str_strip ''{}'' s = s"
    using f(1,2,3) is_hex_not_special [of "hd s"] is_hex_not_special [of "last s"]
    by (intro str_strip_noop) auto
  have "uuid_hex s = filter (\<lambda>c. c \<noteq> CHR ''-'') s"
    by (simp add: uuid_hex_def r1 r2 r3 str_replace_char)
  then show ?thesis using f by simp
qed

lemma check_valid_uuid_hex32:
  "length (uuid_hex s) = 32 \<Longrightarrow> list_all is_hex (uuid_hex s) \<Longrightarrow>
   check_valid_uuid (JStr s) = Inr True"
  using uuid_UUID_hex [of s "uuid_hex s"] by (simp add: check_valid_uuid_def)

lemma check_valid_uuid_canonical:
  assumes "canonical_uuid s"
  shows "check_valid_uuid (JStr s) = Inr True"
proof -
  have "length (uuid_hex s) = 32" "list_all is_hex (uuid_hex s)"
    using canonical_uuid_hex [OF assms] by blast+
  then show ?thesis by (rule check_valid_uuid_hex32)
qed
















lemmas uuid_eval = check_valid_uuid_def uuid_hex_def str_strip_def py_int16_def py_isspace_def
  digit_or_us_def is_hex_def hex_value_def hex_digit_def canonical_uuid_def Let_def





section \<open>Claims on the validation of identifiers\<close>

lemma valid_example: "check_valid_uuid (JStr ''12345678-1234-5678-1234-567812345678'') = Inr True"
  by (simp add: uuid_eval)

lemma canonical_example: "canonical_uuid ''12345678-1234-5678-1234-567812345678''"
  by (simp add: uuid_eval)

lemma invalid_example: "check_valid_uuid (JStr ''not-a-uuid'') = Inr False"
  by (simp add: uuid_eval)

lemma invalid_empty: "check_valid_uuid (JStr []) = Inr False"
  by (simp add: uuid_eval)




text \<open>
  Claim C10: \<^verbatim>\<open>check_valid_uuid\<close> returns a boolean for every value and lets no
  exception of the UUID constructor through: when the constructor raises, whatever it
  raises, the result is false, and so it is for every value that is no string, such as
  \<^verbatim>\<open>None\<close>.
\<close>

theorem check_valid_uuid_total:
  "(\<exists>b. check_valid_uuid v = Inr b) \<and>
   (\<forall>e. uuid_UUID v = Inl e \<longrightarrow> check_valid_uuid v = Inr False) \<and>
   ((\<forall>s. v \<noteq> JStr s) \<longrightarrow> check_valid_uuid v = Inr False)"
  by (cases v) (auto simp: check_valid_uuid_def split: sum.splits)

theorem check_valid_uuid_total_witness:
  "uuid_UUID JNull = Inl TypeError \<and> check_valid_uuid JNull = Inr False \<and>
   uuid_UUID (JInt 5) = Inl AttributeError \<and> check_valid_uuid (JInt 5) = Inr False"
  using check_valid_uuid_total [of JNull] check_valid_uuid_total [of "JInt 5"]
  by simp

section \<open>Claims on the handlers\<close>

lemmas store_defs = lpush_def rpush_def expire_def lrange_all_def delete_def brpop_def
  path_exists_def write_file_def read_file_def

text \<open>
  Claim C8: when the body of a submission has no \<^verbatim>\<open>job_queue\<close>, or a value for it that
  Python takes for false (the empty string among them), or is no object at all,
  \<^verbatim>\<open>job_post\<close> answers 400 with the message of an invalid request, and the state is the
  one before: nothing is pushed, no file is written, no store is called.
\<close>

theorem job_post_without_queue:
  "(map_of kvs ''job_queue'' = None \<longrightarrow>
      job_post env uuid4 (JObj kvs) st =
        (st, Inr (Resp (''Invalid data or no job_queue specified'' @ [CHR 0x0A]) 400))) \<and>
   (map_of kvs ''job_queue'' = Some v \<and> \<not> truthy v \<longrightarrow>
      job_post env uuid4 (JObj kvs) st =
        (st, Inr (Resp (''Invalid data or no job_queue specified'' @ [CHR 0x0A]) 400))) \<and>
   ((\<forall>kvs. data \<noteq> JObj kvs) \<longrightarrow>
      job_post env uuid4 data st =
        (st, Inr (Resp (''Invalid data or no job_queue specified'' @ [CHR 0x0A]) 400)))"
  by (cases data) (simp_all add: job_post_def dict_get_def)

theorem job_post_without_queue_witness:
  "job_post example_env ''12345678-1234-5678-1234-567812345678''
     (JObj [(''job_id'', JStr ''12345678-1234-5678-1234-567812345678'')]) empty_state =
     (empty_state, Inr (Resp (''Invalid data or no job_queue specified'' @ [CHR 0x0A]) 400)) \<and>
   job_post example_env ''12345678-1234-5678-1234-567812345678''
     (JObj [(''job_queue'', JStr [])]) empty_state =
     (empty_state, Inr (Resp (''Invalid data or no job_queue specified'' @ [CHR 0x0A]) 400)) \<and>
   job_post example_env ''12345678-1234-5678-1234-567812345678'' (JArr []) empty_state =
     (empty_state, Inr (Resp (''Invalid data or no job_queue specified'' @ [CHR 0x0A]) 400))"
  using job_post_without_queue [of "[(''job_id'', JStr ''12345678-1234-5678-1234-567812345678'')]"
      example_env "''12345678-1234-5678-1234-567812345678''" empty_state "JStr []" "JArr []"]
    job_post_without_queue [of "[(''job_queue'', JStr [])]"
      example_env "''12345678-1234-5678-1234-567812345678''" empty_state "JStr []" "JArr []"]
  by simp

text \<open>
  Claim C6, as the specification states it: every operation that takes a job id fails
  with the invalid-id answer, and touches no store, for every id that fails the
  validation. With an invalid id and no queue, \<^verbatim>\<open>job_post\<close> answers with the message of
  an invalid request, not of an invalid id. And the empty string fails the validation,
  yet \<^verbatim>\<open>job_post\<close> takes an empty \<^verbatim>\<open>job_id\<close> for a missing one: it generates an id,
  pushes the job and writes the result record.
\<close>

theorem empty_job_id_is_submitted:
  "check_valid_uuid (JStr ''not-a-uuid'') = Inr False \<and>
   job_post example_env ''12345678-1234-5678-1234-567812345678''
     (JObj [(''job_id'', JStr ''not-a-uuid'')]) empty_state =
     (empty_state, Inr (Resp (''Invalid data or no job_queue specified'' @ [CHR 0x0A]) 400)) \<and>
   check_valid_uuid (JStr []) = Inr False \<and>
   snd (job_post example_env ''12345678-1234-5678-1234-567812345678''
     (JObj [(''job_queue'', JStr ''q''), (''job_id'', JStr [])]) empty_state) =
     Inr (Jsonify [(''job_id'', JStr ''12345678-1234-5678-1234-567812345678'')]) \<and>
   redis (fst (job_post example_env ''12345678-1234-5678-1234-567812345678''
     (JObj [(''job_queue'', JStr ''q''), (''job_id'', JStr [])]) empty_state)) ''q'' =
     [example_dumps (JObj [(''job_queue'', JStr ''q''),
        (''job_id'', JStr ''12345678-1234-5678-1234-567812345678'')])] \<and>
   trace (fst (job_post example_env ''12345678-1234-5678-1234-567812345678''
     (JObj [(''job_queue'', JStr ''q''), (''job_id'', JStr [])]) empty_state)) =
     [EvLPush ''q'' (example_dumps (JObj [(''job_queue'', JStr ''q''),
        (''job_id'', JStr ''12345678-1234-5678-1234-567812345678'')])),
      EvExists ''/data/12345678-1234-5678-1234-567812345678'',
      EvWrite ''/data/12345678-1234-5678-1234-567812345678''
        (example_dumps (JObj [(''job_state'', JStr ''waiting'')]))]"
  using invalid_empty invalid_example
  by (simp add: job_post_def job_post_store_def submit_job_def encode_key_def dict_get_def
      store_defs example_env_def empty_state_def path_join_def Let_def)

text \<open>
  Claim C6, amended: for an id that fails the validation, the six handlers that take the
  id from the path answer 400 with the message of an invalid job id and leave the state,
  trace included, as it was; \<^verbatim>\<open>job_post\<close> does so, with its own message, when the id in
  the body is not empty and the body names a queue. (An empty id counts as none, and a
  missing queue is reported first.)
\<close>

theorem invalid_job_id_rejected:
  assumes "check_valid_uuid (JStr job_id) = Inr False"
  shows "result_post env job_id data st = (st, Inr (Resp (''Invalid job id'' @ [CHR 0x0A]) 400)) \<and>
    result_get env job_id st = (st, Inr (Resp (''Invalid job id'' @ [CHR 0x0A]) 400)) \<and>
    artifacts_post env job_id file st = (st, Inr (Resp (''Invalid job id'' @ [CHR 0x0A]) 400)) \<and>
    artifacts_get env job_id st = (st, Inr (Resp (''Invalid job id'' @ [CHR 0x0A]) 400)) \<and>
    output_get job_id st = (st, Inr (Resp (''Invalid job id'' @ [CHR 0x0A]) 400)) \<and>
    output_post job_id chunk st = (st, Inr (Resp (''Invalid job id'' @ [CHR 0x0A]) 400)) \<and>
    (job_id \<noteq> [] \<and> truthy (dict_get kvs ''job_queue'') \<and> dict_get kvs ''job_id'' = JStr job_id \<longrightarrow>
       job_post env uuid4 (JObj kvs) st =
         (st, Inr (Resp (''Invalid job_id specified'' @ [CHR 0x0A]) 400)))"
  using assms
  by (simp add: result_post_def result_get_def artifacts_post_def artifacts_get_def
      output_get_def output_post_def job_post_def)

theorem invalid_job_id_rejected_witness:
  "check_valid_uuid (JStr ''not-a-uuid'') = Inr False \<and>
   result_get example_env ''not-a-uuid'' empty_state =
     (empty_state, Inr (Resp (''Invalid job id'' @ [CHR 0x0A]) 400)) \<and>
   output_post ''not-a-uuid'' ''line'' empty_state =
     (empty_state, Inr (Resp (''Invalid job id'' @ [CHR 0x0A]) 400)) \<and>
   job_post example_env ''12345678-1234-5678-1234-567812345678''
     (JObj [(''job_queue'', JStr ''q''), (''job_id'', JStr ''not-a-uuid'')]) empty_state =
     (empty_state, Inr (Resp (''Invalid job_id specified'' @ [CHR 0x0A]) 400))"
  using invalid_job_id_rejected [OF invalid_example, of example_env "JNull" empty_state None
      "''line''" "[(''job_queue'', JStr ''q''), (''job_id'', JStr ''not-a-uuid'')]"
      "''12345678-1234-5678-1234-567812345678''"] invalid_example
  by (simp add: dict_get_def)






lemma check_valid_uuid_JStr:
  "check_valid_uuid v = Inr True \<Longrightarrow> \<exists>s. v = JStr s"
  by (cases v) (simp_all add: check_valid_uuid_def)

lemma job_post_store_eq:
  assumes "q \<noteq> []"
  shows "job_post_store env (JStr q) (JStr j) data st =
     (st\<lparr>redis := (redis st)(q := json_dumps env data # redis st q),
         files := (files st)(path_join (DATA_PATH env) j \<mapsto>
           json_dumps env (JObj [(''job_state'',
             JStr (if files st (path_join (DATA_PATH env) j) \<noteq> None
                   then ''resubmitted'' else ''waiting''))])),
         trace := trace st @
           [EvLPush q (json_dumps env data),
            EvExists (path_join (DATA_PATH env) j),
            EvWrite (path_join (DATA_PATH env) j)
              (json_dumps env (JObj [(''job_state'',
                 JStr (if files st (path_join (DATA_PATH env) j) \<noteq> None
                       then ''resubmitted'' else ''waiting''))]))]\<rparr>,
      Inr (Jsonify [(''job_id'', JStr j)]))"
  by (simp add: job_post_store_def submit_job_def encode_key_def store_defs Let_def)

lemma job_post_eq:
  assumes "dict_get kvs ''job_queue'' = JStr q" "q \<noteq> []"
    and "truthy (dict_get kvs ''job_id'') \<longrightarrow>
           dict_get kvs ''job_id'' = JStr j \<and> check_valid_uuid (JStr j) = Inr True \<and> data = JObj kvs"
    and "\<not> truthy (dict_get kvs ''job_id'') \<longrightarrow>
           j = uuid4 \<and> data = JObj (AList.update ''job_id'' (JStr uuid4) kvs)"
  shows "job_post env uuid4 (JObj kvs) st = job_post_store env (JStr q) (JStr j) data st"
  using assms by (auto simp: job_post_def Let_def)

lemma valid_example_id: "check_valid_uuid (JStr example_id) = Inr True"
  unfolding example_id_def by (rule valid_example)











lemma output_post_valid:
  assumes "check_valid_uuid (JStr X) = Inr True"
  shows "output_post X c st =
    (st\<lparr>redis := (redis st)(''stream_'' @ X := redis st (''stream_'' @ X) @ [c]),
        ttl := (ttl st)(''stream_'' @ X \<mapsto> 14400),
        trace := trace st @ [EvRPush (''stream_'' @ X) c, EvExpire (''stream_'' @ X) 14400]\<rparr>,
     Inr (Resp ''OK'' 200))"
  using assms by (simp add: output_post_def store_defs Let_def)

lemma output_post_all:
  assumes "check_valid_uuid (JStr X) = Inr True"
  shows "redis (foldl (\<lambda>s c. fst (output_post X c s)) st cs) (''stream_'' @ X) =
         redis st (''stream_'' @ X) @ cs"
  by (induction cs arbitrary: st) (simp_all add: output_post_valid [OF assms])

lemma decode_all_valid:
  "\<forall>c\<in>set cs. utf8_valid (map of_char c) \<Longrightarrow> decode_all cs = Inr cs"
  by (induction cs) (simp_all add: bytes_decode_def)

lemma output_get_valid:
  assumes "check_valid_uuid (JStr X) = Inr True"
  shows "output_get X st =
    (st\<lparr>redis := (redis st)(''stream_'' @ X := []),
        ttl := (ttl st)(''stream_'' @ X := None),
        trace := trace st @ [EvLRange (''stream_'' @ X) 0 (- 1), EvDelete (''stream_'' @ X)]\<rparr>,
     if redis st (''stream_'' @ X) \<noteq> []
     then (case decode_all (redis st (''stream_'' @ X)) of
             Inl e \<Rightarrow> Inl e
           | Inr xs \<Rightarrow> Inr (Resp (str_join [CHR 0x0A] xs) 200))
     else Inr (Resp [] 204))"
  using assms by (simp add: output_get_def store_defs Let_def split: sum.splits)

text \<open>
  Claim C3, as the specification states it: after the chunks \<^verbatim>\<open>a\<close>, \<^verbatim>\<open>b\<close>, \<^verbatim>\<open>c\<close> have
  been appended for a valid id, a drain returns their concatenation. The code joins the
  chunks with a line feed between them: the drain returns \<^verbatim>\<open>a\<close>, \<^verbatim>\<open>b\<close> and \<^verbatim>\<open>c\<close> on
  three lines, which is not the concatenation.
\<close>

theorem output_drain_is_not_concatenation:
  "snd (output_get example_id
     (fst (output_post example_id ''c''
        (fst (output_post example_id ''b''
           (fst (output_post example_id ''a'' empty_state))))))) =
     Inr (Resp (''a'' @ [CHR 0x0A] @ ''b'' @ [CHR 0x0A] @ ''c'') 200) \<and>
   snd (output_get example_id
     (fst (output_post example_id ''c''
        (fst (output_post example_id ''b''
           (fst (output_post example_id ''a'' empty_state))))))) \<noteq>
     Inr (Resp (concat [''a'', ''b'', ''c'']) 200)"
  by (simp add: output_get_valid [OF valid_example_id] output_post_valid [OF valid_example_id]
      empty_state_def bytes_decode_def)

text \<open>
  Claim C3, amended: for a valid id, after chunks have been appended in some order to
  the stream of the id, all chunks of the stream being well-formed UTF-8, a drain
  returns with status 200 the chunks of the stream in the order of their appends,
  joined with one line feed between consecutive chunks (204 with an empty body when
  there is none), and clears the stream; a second drain that follows at once returns
  204 with an empty body, which is no error.
\<close>

theorem output_append_then_drain:
  assumes "check_valid_uuid (JStr X) = Inr True"
    and "\<forall>c\<in>set (redis st (''stream_'' @ X) @ cs). utf8_valid (map of_char c)"
    and "st1 = foldl (\<lambda>s c. fst (output_post X c s)) st cs"
    and "st2 = fst (output_get X st1)"
  shows "snd (output_get X st1) =
           Inr (if redis st (''stream_'' @ X) @ cs = [] then Resp [] 204
                else Resp (str_join [CHR 0x0A] (redis st (''stream_'' @ X) @ cs)) 200) \<and>
         redis st2 (''stream_'' @ X) = [] \<and>
         snd (output_get X st2) = Inr (Resp [] 204)"
proof -
  have r1: "redis st1 (''stream_'' @ X) = redis st (''stream_'' @ X) @ cs"
    unfolding assms(3) by (rule output_post_all [OF assms(1)])
  have d: "decode_all (redis st (''stream_'' @ X) @ cs) = Inr (redis st (''stream_'' @ X) @ cs)"
    by (rule decode_all_valid [OF assms(2)])
  have g1: "snd (output_get X st1) =
           Inr (if redis st (''stream_'' @ X) @ cs = [] then Resp [] 204
                else Resp (str_join [CHR 0x0A] (redis st (''stream_'' @ X) @ cs)) 200)"
    unfolding output_get_valid [OF assms(1)] snd_conv r1 d by simp
  have r2: "redis st2 (''stream_'' @ X) = []"
    unfolding assms(4) output_get_valid [OF assms(1)] by simp
  have g2: "snd (output_get X st2) = Inr (Resp [] 204)"
    unfolding output_get_valid [OF assms(1)] snd_conv r2 by simp
  show ?thesis using g1 r2 g2 by blast
qed

theorem output_append_then_drain_witness:
  "snd (output_get example_id
     (fst (output_post example_id ''c''
        (fst (output_post example_id ''b''
           (fst (output_post example_id ''a'' empty_state))))))) =
     Inr (Resp (''a'' @ [CHR 0x0A] @ ''b'' @ [CHR 0x0A] @ ''c'') 200) \<and>
   snd (output_get example_id (fst (output_get example_id
     (fst (output_post example_id ''c''
        (fst (output_post example_id ''b''
           (fst (output_post example_id ''a'' empty_state))))))))) =
     Inr (Resp [] 204)"
proof -
  have a: "\<forall>c\<in>set (redis empty_state (''stream_'' @ example_id) @ [''a'', ''b'', ''c'']).
      utf8_valid (map of_char c)"
    by (simp add: empty_state_def)
  note t = output_append_then_drain [where st = empty_state and cs = "[''a'', ''b'', ''c'']",
      OF valid_example_id a refl refl]
  show ?thesis using t by (simp add: empty_state_def)
qed

lemma files_job_post_store:
  "files st k \<noteq> None \<Longrightarrow> files (fst (job_post_store env q j d st)) k \<noteq> None"
  by (auto simp: job_post_store_def submit_job_def store_defs Let_def
      split: sum.splits json.splits prod.splits)
lemma files_job_post:
  "files st k \<noteq> None \<Longrightarrow> files (fst (job_post env g d st)) k \<noteq> None"
  using files_job_post_store
  by (cases d) (auto simp: job_post_def Let_def split: sum.splits)
lemma files_job_get:
  "files (fst (job_get qs st)) k = files st k"
  by (auto simp: job_get_def get_job_def brpop_def split: option.splits prod.splits)
lemma files_result_post:
  "files st k \<noteq> None \<Longrightarrow> files (fst (result_post env j d st)) k \<noteq> None"
  by (auto simp: result_post_def store_defs Let_def split: sum.splits)
lemma files_result_get:
  "files (fst (result_get env j st)) k = files st k"
  by (auto simp: result_get_def store_defs Let_def split: sum.splits option.splits)
lemma files_artifacts_post:
  "files st k \<noteq> None \<Longrightarrow> files (fst (artifacts_post env j f st)) k \<noteq> None"
  by (auto simp: artifacts_post_def store_defs Let_def split: sum.splits option.splits)
lemma files_artifacts_get:
  "files (fst (artifacts_get env j st)) k = files st k"
  by (auto simp: artifacts_get_def store_defs Let_def split: sum.splits option.splits)
lemma files_output_get:
  "files (fst (output_get j st)) k = files st k"
  by (auto simp: output_get_def store_defs Let_def split: sum.splits)
lemma files_output_post:
  "files (fst (output_post j c st)) k = files st k"
  by (auto simp: output_post_def store_defs Let_def split: sum.splits)
lemma files_handle:
  "files st k \<noteq> None \<Longrightarrow> files (fst (handle env r st)) k \<noteq> None"
  by (cases r)
    (simp_all add: files_job_post files_job_get files_result_post files_result_get
      files_artifacts_post files_artifacts_get files_output_get files_output_post)
lemma files_run:
  "files st k \<noteq> None \<Longrightarrow> files (run env rs st) k \<noteq> None"
proof (induction rs arbitrary: st)
  case Nil
  then show ?case by simp
next
  case (Cons r rs)
  have "files (fst (handle env r st)) k \<noteq> None"
    using Cons.prems by (rule files_handle)
  then have "files (run env rs (fst (handle env r st))) k \<noteq> None"
    by (rule Cons.IH)
  then show ?case by simp
qed
lemma job_post_store_success:
  assumes "job_post_store env q jid d st = (st1, Inr (Jsonify [(''job_id'', JStr j)]))"
  shows "jid = JStr j \<and>
    (files st1 (path_join (DATA_PATH env) j) =
        Some (json_dumps env (JObj [(''job_state'', JStr ''waiting'')])) \<or>
     files st1 (path_join (DATA_PATH env) j) =
        Some (json_dumps env (JObj [(''job_state'', JStr ''resubmitted'')])))"
  using assms
  by (auto simp: job_post_store_def submit_job_def store_defs Let_def
      split: sum.splits json.splits prod.splits if_splits)
lemma job_post_success:
  assumes "job_post env g d st = (st1, Inr (Jsonify [(''job_id'', JStr j)]))"
    and "canonical_uuid g"
  shows "check_valid_uuid (JStr j) = Inr True \<and>
    (files st1 (path_join (DATA_PATH env) j) =
        Some (json_dumps env (JObj [(''job_state'', JStr ''waiting'')])) \<or>
     files st1 (path_join (DATA_PATH env) j) =
        Some (json_dumps env (JObj [(''job_state'', JStr ''resubmitted'')])))"
proof (cases d)
  case (JObj kvs)
  show ?thesis
  proof (cases "truthy (dict_get kvs ''job_id'')")
    case True
    from assms(1) True JObj have
      v: "check_valid_uuid (dict_get kvs ''job_id'') = Inr True" and
      s: "job_post_store env (dict_get kvs ''job_queue'') (dict_get kvs ''job_id'') d st =
            (st1, Inr (Jsonify [(''job_id'', JStr j)]))"
      by (auto simp: job_post_def Let_def split: if_splits sum.splits)
    from job_post_store_success [OF s] v show ?thesis by auto
  next
    case False
    from assms(1) False JObj have
      s: "job_post_store env (dict_get kvs ''job_queue'') (JStr g)
            (JObj (AList.update ''job_id'' (JStr g) kvs)) st =
            (st1, Inr (Jsonify [(''job_id'', JStr j)]))"
      by (auto simp: job_post_def Let_def split: if_splits)
    from job_post_store_success [OF s] check_valid_uuid_canonical [OF assms(2)]
    show ?thesis by auto
  qed
qed (use assms(1) in \<open>simp_all add: job_post_def\<close>)
lemma result_get_found:
  assumes "check_valid_uuid (JStr j) = Inr True" "files st (path_join (DATA_PATH env) j) = Some body"
  shows "result_get env j st =
    (st\<lparr>trace := trace st @ [EvExists (path_join (DATA_PATH env) j),
        EvRead (path_join (DATA_PATH env) j)]\<rparr>, Inr (Resp body 200))"
  using assms by (simp add: result_get_def store_defs Let_def)

lemma example_job_post:
  "job_post example_env example_id (JObj example_job) empty_state =
     (fst (job_post example_env example_id (JObj example_job) empty_state),
      Inr (Jsonify [(''job_id'', JStr example_id)]))"
proof -
  have a1: "dict_get example_job ''job_queue'' = JStr ''q''"
    by (simp add: dict_get_def example_job_def)
  have a2: "dict_get example_job ''job_id'' = JStr example_id"
    by (simp add: dict_get_def example_job_def)
  have a3: "''q'' \<noteq> []" by simp
  have "job_post example_env example_id (JObj example_job) empty_state =
      job_post_store example_env (JStr ''q'') (JStr example_id) (JObj example_job) empty_state"
    by (rule job_post_eq [OF a1 a3]) (simp_all add: a2 valid_example example_id_def)
  then show ?thesis by (simp add: job_post_store_eq [OF a3])
qed

lemma canonical_example_id: "canonical_uuid example_id"
  unfolding example_id_def by (rule canonical_example)

text \<open>
  Claim C2: when \<^verbatim>\<open>job_post\<close> has answered with a job id (\<^verbatim>\<open>generated\<close>, the id that
  \<^verbatim>\<open>uuid4\<close> returns, being in canonical form), the result file of that id exists and
  holds the state \<^verbatim>\<open>waiting\<close> or \<^verbatim>\<open>resubmitted\<close>; after any sequence of requests to
  the server the file still exists, and \<^verbatim>\<open>result_get\<close> for the id answers 200 with the
  content of the file, never 204.
\<close>

theorem result_record_persists:
  assumes "job_post env generated data st = (st1, Inr (Jsonify [(''job_id'', JStr j)]))"
    and "canonical_uuid generated"
    and "p = path_join (DATA_PATH env) j"
  shows "(files st1 p = Some (json_dumps env (JObj [(''job_state'', JStr ''waiting'')])) \<or>
          files st1 p = Some (json_dumps env (JObj [(''job_state'', JStr ''resubmitted'')]))) \<and>
         (\<forall>rs. files (run env rs st1) p \<noteq> None \<and>
            (\<exists>body. files (run env rs st1) p = Some body \<and>
               snd (result_get env j (run env rs st1)) = Inr (Resp body 200)))"
proof -
  note s = job_post_success [OF assms(1,2)]
  have v: "check_valid_uuid (JStr j) = Inr True" using s by simp
  have f1: "files st1 p \<noteq> None" using s unfolding assms(3) by auto
  have later: "files (run env rs st1) p \<noteq> None \<and>
            (\<exists>body. files (run env rs st1) p = Some body \<and>
               snd (result_get env j (run env rs st1)) = Inr (Resp body 200))" for rs
  proof -
    have n: "files (run env rs st1) p \<noteq> None" using f1 by (rule files_run)
    then obtain body where b: "files (run env rs st1) p = Some body" by auto
    have "snd (result_get env j (run env rs st1)) = Inr (Resp body 200)"
      using result_get_found [OF v b [unfolded assms(3)]] by simp
    then show ?thesis using n b by blast
  qed
  show ?thesis using s later unfolding assms(3) by blast
qed

theorem result_record_persists_witness:
  "canonical_uuid example_id \<and>
   snd (job_post example_env example_id (JObj example_job) empty_state) =
     Inr (Jsonify [(''job_id'', JStr example_id)]) \<and>
   files (run example_env
       [OutputPost example_id ''line'', JobGet [''q''], ArtifactsPost example_id (Some ''bundle''),
        ResultPost example_id (JObj [(''status'', JStr ''passed'')])]
       (fst (job_post example_env example_id (JObj example_job) empty_state)))
     (path_join (DATA_PATH example_env) example_id) \<noteq> None \<and>
   (\<exists>body. snd (result_get example_env example_id (run example_env
       [OutputPost example_id ''line'', JobGet [''q''], ArtifactsPost example_id (Some ''bundle''),
        ResultPost example_id (JObj [(''status'', JStr ''passed'')])]
       (fst (job_post example_env example_id (JObj example_job) empty_state)))) =
     Inr (Resp body 200))"
proof -
  note t = result_record_persists [OF example_job_post canonical_example_id refl,
      THEN conjunct2, THEN spec,
      of "[OutputPost example_id ''line'', JobGet [''q''], ArtifactsPost example_id (Some ''bundle''),
        ResultPost example_id (JObj [(''status'', JStr ''passed'')])]"]
  have "snd (job_post example_env example_id (JObj example_job) empty_state) =
     Inr (Jsonify [(''job_id'', JStr example_id)])"
    by (subst example_job_post) simp
  then show ?thesis using t canonical_example_id by blast
qed

end
